theory Spec2Isabelle
  imports Main "HOL-Library.Word"
begin

section \<open>The decoder host of libsigrokdecode (decode.c)\<close>

text \<open>
  A shallow embedding of \<^verbatim>\<open>decode.c\<close>: the registry of protocol decoders
  (\<^verbatim>\<open>list_pds\<close>), the list of decoder instances (\<^verbatim>\<open>decoders\<close>), the made-up
  time counter (\<^verbatim>\<open>_timehack\<close>) and the functions that register a decoder, create an
  instance, bind a probe, start a session and feed it a buffer.

  The C globals become the fields of one state record that every function takes and
  returns. The Python interpreter is outside the file; what the C code observes of
  it is modelled as data: an attribute lookup that may find nothing, a constructor and
  methods that may raise, and a log of the method invocations that were issued.
  Output to the terminal (\<^verbatim>\<open>fprintf\<close>, the traceback of \<^verbatim>\<open>PyErr_Print\<close>) and
  reference counts are left out: no function of the file branches on them. What is
  kept of \<^verbatim>\<open>PyErr_Print\<close> is that it ends the process when the exception it is
  to print is \<^verbatim>\<open>SystemExit\<close>.
\<close>

subsection \<open>Status codes\<close>

text \<open>
  The status codes that \<^verbatim>\<open>decode.c\<close> returns. Their numeric values are declared in
  \<^verbatim>\<open>sigrokdecode.h\<close>; the file only relies on \<^verbatim>\<open>SRD_OK\<close> being the one code
  that is not negative, so the test \<^verbatim>\<open>r < 0\<close> is the test \<open>r \<noteq> SRD_OK\<close>.
\<close>

datatype srd_status =
  SRD_OK | SRD_ERR_MALLOC | SRD_ERR_ARGS | SRD_ERR_PYTHON | SRD_ERR_DECODERS_DIR



subsection \<open>The Python side, as the C code observes it\<close>

type_synonym byte = "8 word"

text \<open>
  An attribute value is a string object or an object that fails \<^verbatim>\<open>PyString_Check\<close>.
\<close>

datatype py_value = PyString string | PyOther

text \<open>
  The two method invocations the host issues, with the Python values of their arguments:
  \<^verbatim>\<open>start({driver, unitsize, starttime, samplerate})\<close> and
  \<^verbatim>\<open>decode({time, duration, data})\<close>.
\<close>

datatype py_call =
  Start string int int int
| Decode int int "byte list"

text \<open>
  What a call into Python can raise, as far as the host can tell the difference: an
  ordinary exception, or \<^verbatim>\<open>SystemExit\<close> with the exit status it carries.
\<close>

datatype py_exception = PyException | PySystemExit int

text \<open>
  One entry of the invocation log: the position of the instance in \<^verbatim>\<open>decoders\<close>,
  the call, and whether it returned normally (\<open>False\<close>: it raised, and
  \<^verbatim>\<open>PyObject_CallMethod\<close> returned \<^verbatim>\<open>NULL\<close>).
\<close>

type_synonym py_event = "nat \<times> py_call \<times> bool"

text \<open>
  What \<^verbatim>\<open>PyObject_GetAttrString(obj, "probes")\<close> followed by
  \<^verbatim>\<open>PyMapping_SetItemString\<close> can meet: no such attribute (the lookup fails with
  \<^verbatim>\<open>AttributeError\<close>), an attribute that does not support item assignment, or a
  mapping from probe names to integers.
\<close>

datatype py_probes = NoAttr | NotMapping | Mapping "string \<rightharpoonup> int"

text \<open>
  An instantiated decoder object. Whether a method invocation raises, and what, may
  depend on everything the interpreter has been asked to do so far, so \<open>raises\<close>
  takes the log; \<open>None\<close> is a normal return.
  Objects are held by value: that two instances may share one Python object, or one
  probes dictionary, is not modelled, and no property below speaks about another
  instance than the one it names.
\<close>

record py_object =
  probes :: py_probes
  raises :: "py_event list \<Rightarrow> py_call \<Rightarrow> py_exception option"

text \<open>
  The object a decoder module passes to \<^verbatim>\<open>register\<close>: its attributes
  (\<open>None\<close>: there is no such attribute, the lookup fails with
  \<^verbatim>\<open>AttributeError\<close>), and the result of calling it with no arguments (\<open>Inl\<close>: the
  call raised).
\<close>

record py_class =
  getattr :: "string \<rightharpoonup> py_value"
  call :: "py_event list \<Rightarrow> py_exception + py_object"

subsection \<open>The C data\<close>

text \<open>\<^verbatim>\<open>struct srd_decoder\<close>; the field \<^verbatim>\<open>id\<close> is \<open>dec_id\<close> here.\<close>

record srd_decoder =
  dec_id :: string
  name :: string
  longname :: string
  desc :: string
  longdesc :: string
  author :: string
  email :: string
  license :: string
  py_decobj :: py_class
  func :: "string option"
  inputformats :: "string list"
  outputformats :: "string list"

text \<open>\<^verbatim>\<open>struct srd_decoder_instance\<close>.\<close>

record srd_decoder_instance =
  py_instance :: py_object

text \<open>
  The globals: \<^verbatim>\<open>list_pds\<close>, \<^verbatim>\<open>decoders\<close>, the \<^verbatim>\<open>static int _timehack\<close> of
  \<^verbatim>\<open>srd_run_decoder\<close> (a 32-bit \<^verbatim>\<open>int\<close>), and the log of method invocations.
  A pointer to an instance is its position in \<open>decoders\<close>: instances are only ever
  appended, so a position names the same instance for the rest of the session.
\<close>

record srd_state =
  list_pds :: "srd_decoder list"
  decoders :: "srd_decoder_instance list"
  timehack :: "32 word"
  py_calls :: "py_event list"

text \<open>
  What a call can end in: it returns a value, or it ends the process with an exit
  status.
\<close>

datatype 'a outcome = Return 'a | Exit int

text \<open>
  \<^verbatim>\<open>PyErr_Print\<close> on a pending exception: for \<^verbatim>\<open>SystemExit\<close> it ends the process
  with the status of the exception (\<open>Some\<close>); any other exception it prints and
  clears, and returns (\<open>None\<close>).
\<close>

definition PyErr_Print :: "py_exception \<Rightarrow> int option" where
  "PyErr_Print e = (case e of PyException \<Rightarrow> None | PySystemExit status \<Rightarrow> Some status)"

subsection \<open>Registry\<close>

definition srd_list_decoders :: "srd_state \<Rightarrow> srd_decoder list" where
  "srd_list_decoders s = list_pds s"

text \<open>The first decoder of the list whose id is equal (\<^verbatim>\<open>strcmp\<close>) to the query.\<close>

definition srd_get_decoder_by_id :: "string \<Rightarrow> srd_state \<Rightarrow> srd_decoder option" where
  "srd_get_decoder_by_id ident s = find (\<lambda>dec. dec_id dec = ident) (srd_list_decoders s)"

text \<open>
  \<^verbatim>\<open>g_strdup\<close> copies a C string: the bytes of the Python string's buffer up to its
  first NUL byte. It does not return \<^verbatim>\<open>NULL\<close> for a buffer that is not \<^verbatim>\<open>NULL\<close>.
\<close>

definition g_strdup :: "string \<Rightarrow> string" where
  "g_strdup str = takeWhile (\<lambda>c. c \<noteq> CHR 0x00) str"

text \<open>
  \<^verbatim>\<open>h_str\<close>: the attribute must exist and be a string object. For a string object
  \<^verbatim>\<open>PyString_AsString\<close> returns its buffer, and \<^verbatim>\<open>g_strdup\<close> a copy, so the two
  later error exits of the C function are not taken. \<open>Inl\<close> is the error code,
  \<open>Inr\<close> the string stored in \<^verbatim>\<open>*outstr\<close> together with \<^verbatim>\<open>SRD_OK\<close>.
\<close>

definition h_str :: "py_class \<Rightarrow> string \<Rightarrow> srd_status + string" where
  "h_str py_res key =
     (case getattr py_res key of
        None \<Rightarrow> Inl SRD_ERR_PYTHON
      | Some PyOther \<Rightarrow> Inl SRD_ERR_PYTHON
      | Some (PyString str) \<Rightarrow> Inr (g_strdup str))"

text \<open>
  \<^verbatim>\<open>srd_load_decoder\<close>. \<open>malloc_ok\<close> says whether the \<^verbatim>\<open>malloc\<close> of the
  descriptor succeeded. Every early \<^verbatim>\<open>return r\<close> leaves the registry as it was.
\<close>

definition srd_load_decoder :: "bool \<Rightarrow> py_class \<Rightarrow> srd_state \<Rightarrow> srd_status \<times> srd_state" where
  "srd_load_decoder malloc_ok py_res s =
     (if \<not> malloc_ok then (SRD_ERR_MALLOC, s) else
      (case h_str py_res ''id'' of Inl r \<Rightarrow> (r, s) | Inr d_id \<Rightarrow>
      (case h_str py_res ''name'' of Inl r \<Rightarrow> (r, s) | Inr d_name \<Rightarrow>
      (case h_str py_res ''longname'' of Inl r \<Rightarrow> (r, s) | Inr d_longname \<Rightarrow>
      (case h_str py_res ''desc'' of Inl r \<Rightarrow> (r, s) | Inr d_desc \<Rightarrow>
      (case h_str py_res ''longdesc'' of Inl r \<Rightarrow> (r, s) | Inr d_longdesc \<Rightarrow>
      (case h_str py_res ''author'' of Inl r \<Rightarrow> (r, s) | Inr d_author \<Rightarrow>
      (case h_str py_res ''email'' of Inl r \<Rightarrow> (r, s) | Inr d_email \<Rightarrow>
      (case h_str py_res ''license'' of Inl r \<Rightarrow> (r, s) | Inr d_license \<Rightarrow>
        (SRD_OK, s\<lparr>list_pds := list_pds s @
           [\<lparr>dec_id = d_id, name = d_name, longname = d_longname, desc = d_desc,
             longdesc = d_longdesc, author = d_author, email = d_email,
             license = d_license, py_decobj = py_res, func = None,
             inputformats = [], outputformats = []\<rparr>]\<rparr>))))))))))"

subsection \<open>Instances\<close>

text \<open>
  \<^verbatim>\<open>srd_instance_new\<close>. \<open>tuple_ok\<close> says whether \<^verbatim>\<open>PyTuple_New(0)\<close> succeeded
  (\<^verbatim>\<open>g_malloc\<close> does not return \<^verbatim>\<open>NULL\<close>). The value returned is the pointer to
  the new instance, or \<open>None\<close> for \<^verbatim>\<open>NULL\<close>. When the constructor raises, the
  exception goes to \<^verbatim>\<open>PyErr_Print\<close> before \<^verbatim>\<open>NULL\<close> is returned.
\<close>

definition srd_instance_new ::
    "bool \<Rightarrow> string \<Rightarrow> srd_state \<Rightarrow> nat option outcome \<times> srd_state" where
  "srd_instance_new tuple_ok ident s =
     (case srd_get_decoder_by_id ident s of
        None \<Rightarrow> (Return None, s)
      | Some dec \<Rightarrow>
          if \<not> tuple_ok then (Return None, s)
          else (case call (py_decobj dec) (py_calls s) of
                  Inl e \<Rightarrow>
                    (case PyErr_Print e of
                       Some status \<Rightarrow> (Exit status, s)
                     | None \<Rightarrow> (Return None, s))
                | Inr obj \<Rightarrow>
                    (Return (Some (length (decoders s))),
                     s\<lparr>decoders := decoders s @ [\<lparr>py_instance = obj\<rparr>]\<rparr>)))"

text \<open>
  \<^verbatim>\<open>srd_instance_set_probe\<close>. \<open>num\<close> is a C \<^verbatim>\<open>int\<close>; \<^verbatim>\<open>PyInt_FromLong\<close> makes
  the Python integer \<open>sint num\<close>. The result of \<^verbatim>\<open>PyMapping_SetItemString\<close> is
  ignored by the C code, so an attribute that does not take the assignment still gives
  \<^verbatim>\<open>SRD_OK\<close>. The outer \<open>None\<close> is for a \<open>di\<close> that points to no instance, where
  the C code has no defined behaviour.
\<close>

definition srd_instance_set_probe ::
    "nat \<Rightarrow> string \<Rightarrow> 32 word \<Rightarrow> srd_state \<Rightarrow> (srd_status \<times> srd_state) option" where
  "srd_instance_set_probe di probename num s =
     (if di < length (decoders s) then
        (let inst = decoders s ! di; obj = py_instance inst in
         case probes obj of
           NoAttr \<Rightarrow> Some (SRD_ERR_PYTHON, s)
         | NotMapping \<Rightarrow> Some (SRD_OK, s)
         | Mapping probedict \<Rightarrow>
             Some (SRD_OK,
               s\<lparr>decoders := (decoders s)
                   [di := inst\<lparr>py_instance :=
                      obj\<lparr>probes := Mapping (probedict(probename \<mapsto> sint num))\<rparr>\<rparr>]\<rparr>))
      else None)"

subsection \<open>Session\<close>

text \<open>
  \<^verbatim>\<open>PyObject_CallMethod\<close> on the instance at position \<open>fst d\<close>: the invocation is
  logged with whether it returned normally, and the result is what it raised, if anything.
\<close>

definition PyObject_CallMethod ::
    "nat \<times> srd_decoder_instance \<Rightarrow> py_call \<Rightarrow> srd_state \<Rightarrow> py_exception option \<times> srd_state" where
  "PyObject_CallMethod d c s =
     (let r = raises (py_instance (snd d)) (py_calls s) c
      in (r, s\<lparr>py_calls := py_calls s @ [(fst d, c, r = None)]\<rparr>))"

text \<open>
  The loop of \<^verbatim>\<open>srd_session_start\<close> over the rest of the list. An invocation that
  raises ends the loop: the exception goes to \<^verbatim>\<open>PyErr_Print\<close>, which may end the
  process, and otherwise the call returns \<^verbatim>\<open>SRD_ERR_PYTHON\<close>.
\<close>

fun start_loop ::
    "(nat \<times> srd_decoder_instance) list \<Rightarrow> py_call \<Rightarrow> srd_state
       \<Rightarrow> srd_status outcome \<times> srd_state" where
  "start_loop [] c s = (Return SRD_OK, s)"
| "start_loop (d # ds) c s =
     (case PyObject_CallMethod d c s of
        (Some e, s') \<Rightarrow>
          (case PyErr_Print e of
             Some status \<Rightarrow> (Exit status, s')
           | None \<Rightarrow> (Return SRD_ERR_PYTHON, s'))
      | (None, s') \<Rightarrow> start_loop ds c s')"

text \<open>
  \<^verbatim>\<open>srd_session_start\<close>. The arguments are cast to \<^verbatim>\<open>long\<close> (64 bits) before they
  become Python integers.
\<close>

definition srd_session_start ::
    "string \<Rightarrow> 32 word \<Rightarrow> 64 word \<Rightarrow> 64 word \<Rightarrow> srd_state
       \<Rightarrow> srd_status outcome \<times> srd_state" where
  "srd_session_start driver unitsize starttime samplerate s =
     start_loop (enumerate 0 (decoders s))
       (Start driver (sint unitsize) (sint starttime) (sint samplerate)) s"

text \<open>
  \<^verbatim>\<open>srd_run_decoder\<close>. \<open>dec\<close> and \<open>inbuf\<close> are pointers (\<open>None\<close>: \<^verbatim>\<open>NULL\<close>);
  a pointer to an instance is passed as its position together with the instance there.
  The counter is advanced first: \<^verbatim>\<open>_timehack += inbuflen\<close> adds in 64 bits and
  stores the low 32 bits. The data handed to \<^verbatim>\<open>decode\<close> are the first \<open>inbuflen\<close>
  bytes of the buffer, which the caller must have made at least that long. When the
  invocation raises, the exception goes to \<^verbatim>\<open>PyErr_Print\<close>, which may end the
  process, before \<^verbatim>\<open>SRD_ERR_PYTHON\<close> is returned.
\<close>

definition srd_run_decoder ::
    "(nat \<times> srd_decoder_instance) option \<Rightarrow> byte list option \<Rightarrow> 64 word \<Rightarrow> srd_state
       \<Rightarrow> srd_status outcome \<times> srd_state" where
  "srd_run_decoder dec inbuf inbuflen s =
     (let s1 = s\<lparr>timehack := ucast ((scast (timehack s) :: 64 word) + inbuflen)\<rparr> in
      case dec of
        None \<Rightarrow> (Return SRD_ERR_ARGS, s1)
      | Some d \<Rightarrow>
          (case inbuf of
             None \<Rightarrow> (Return SRD_ERR_ARGS, s1)
           | Some buf \<Rightarrow>
               if inbuflen = 0 then (Return SRD_ERR_ARGS, s1)
               else (case PyObject_CallMethod d
                            (Decode (sint (timehack s1)) 10 (take (unat inbuflen) buf)) s1 of
                       (Some e, s2) \<Rightarrow>
                         (case PyErr_Print e of
                            Some status \<Rightarrow> (Exit status, s2)
                          | None \<Rightarrow> (Return SRD_ERR_PYTHON, s2))
                     | (None, s2) \<Rightarrow> (Return SRD_OK, s2))))"

text \<open>
  The loop of \<^verbatim>\<open>srd_session_feed\<close>: any status other than \<^verbatim>\<open>SRD_OK\<close> ends the
  process with \<^verbatim>\<open>exit(1)\<close>, if \<^verbatim>\<open>srd_run_decoder\<close> has not ended it already.
\<close>

fun feed_loop ::
    "(nat \<times> srd_decoder_instance) list \<Rightarrow> byte list option \<Rightarrow> 64 word \<Rightarrow> srd_state
       \<Rightarrow> srd_status outcome \<times> srd_state" where
  "feed_loop [] inbuf inbuflen s = (Return SRD_OK, s)"
| "feed_loop (d # ds) inbuf inbuflen s =
     (case srd_run_decoder (Some d) inbuf inbuflen s of
        (Exit status, s') \<Rightarrow> (Exit status, s')
      | (Return ret, s') \<Rightarrow>
          if ret \<noteq> SRD_OK then (Exit 1, s') else feed_loop ds inbuf inbuflen s')"

definition srd_session_feed ::
    "byte list option \<Rightarrow> 64 word \<Rightarrow> srd_state \<Rightarrow> srd_status outcome \<times> srd_state" where
  "srd_session_feed inbuf inbuflen s = feed_loop (enumerate 0 (decoders s)) inbuf inbuflen s"

subsection \<open>Names for what the properties talk about\<close>


text \<open>Each attribute with the field of \<^verbatim>\<open>struct srd_decoder\<close> it is stored in.\<close>

definition descriptor_fields :: "(string \<times> (srd_decoder \<Rightarrow> string)) list" where
  "descriptor_fields =
     [(''id'', dec_id), (''name'', name), (''longname'', longname), (''desc'', desc),
      (''longdesc'', longdesc), (''author'', author), (''email'', email), (''license'', license)]"

text \<open>The \<open>time\<close> argument of a \<^verbatim>\<open>decode\<close> invocation.\<close>

fun call_time :: "py_call \<Rightarrow> int option" where
  "call_time (Start driver unitsize starttime samplerate) = None"
| "call_time (Decode time duration data) = Some time"


text \<open>
  The \<^verbatim>\<open>decode\<close> call that the instance at position \<open>j\<close> receives in a feed of
  \<open>inbuflen\<close> bytes that began with the counter at \<open>t\<close>, and the log entries of the
  first \<open>k\<close> such invocations when they returned normally.
\<close>

definition decode_call :: "32 word \<Rightarrow> 64 word \<Rightarrow> byte list \<Rightarrow> nat \<Rightarrow> py_call" where
  "decode_call t inbuflen buf j =
     Decode (sint (t + of_nat (Suc j) * ucast inbuflen)) 10 (take (unat inbuflen) buf)"

definition decode_events :: "32 word \<Rightarrow> 64 word \<Rightarrow> byte list \<Rightarrow> nat \<Rightarrow> py_event list" where
  "decode_events t inbuflen buf k = map (\<lambda>j. (j, decode_call t inbuflen buf j, True)) [0..<k]"

subsection \<open>Clients\<close>

text \<open>
  A caller that creates instances one after the other, for as long as the process lives;
  the value lists what each \<^verbatim>\<open>srd_instance_new\<close> returned.
\<close>

fun instance_new_all ::
    "(bool \<times> string) list \<Rightarrow> srd_state \<Rightarrow> nat option list outcome \<times> srd_state" where
  "instance_new_all [] s = (Return [], s)"
| "instance_new_all ((tuple_ok, ident) # reqs) s =
     (case srd_instance_new tuple_ok ident s of
        (Exit status, s1) \<Rightarrow> (Exit status, s1)
      | (Return di, s1) \<Rightarrow>
          (case instance_new_all reqs s1 of
             (Exit status, s2) \<Rightarrow> (Exit status, s2)
           | (Return dis, s2) \<Rightarrow> (Return (di # dis), s2)))"


subsection \<open>Sample objects and sessions\<close>

text \<open>The state before anything is registered.\<close>

definition session0 :: srd_state where
  "session0 = \<lparr>list_pds = [], decoders = [], timehack = 0, py_calls = []\<rparr>"

text \<open>
  Decoder objects: one with an empty probes mapping whose methods never raise; one
  without a \<open>probes\<close> attribute whose methods always raise an ordinary exception;
  one whose methods raise once three invocations have been logged; one whose methods
  always raise \<^verbatim>\<open>SystemExit(7)\<close>; one whose \<open>probes\<close> attribute takes no item
  assignment.
\<close>

definition quiet_object :: py_object where
  "quiet_object = \<lparr>probes = Mapping Map.empty, raises = (\<lambda>trace c. None)\<rparr>"

definition stubborn_object :: py_object where
  "stubborn_object = \<lparr>probes = NoAttr, raises = (\<lambda>trace c. Some PyException)\<rparr>"

definition tiring_object :: py_object where
  "tiring_object =
     \<lparr>probes = Mapping Map.empty,
      raises = (\<lambda>trace c. if 3 \<le> length trace then Some PyException else None)\<rparr>"

definition exiting_object :: py_object where
  "exiting_object =
     \<lparr>probes = Mapping Map.empty, raises = (\<lambda>trace c. Some (PySystemExit 7))\<rparr>"

definition frozen_probes_object :: py_object where
  "frozen_probes_object = \<lparr>probes = NotMapping, raises = (\<lambda>trace c. None)\<rparr>"

text \<open>
  Candidates for registration: a well-formed decoder class; one that only has an id;
  and variants of the first with an empty name, with another name under the same id,
  and with a NUL byte in the name.
\<close>

definition uart_class :: py_class where
  "uart_class =
     \<lparr>getattr = map_of
        [(''id'', PyString ''uart''), (''name'', PyString ''UART''),
         (''longname'', PyString ''Universal Asynchronous Receiver/Transmitter''),
         (''desc'', PyString ''Serial line''), (''longdesc'', PyString ''Serial line decoder''),
         (''author'', PyString ''A. U. Thor''), (''email'', PyString ''author@example.org''),
         (''license'', PyString ''gplv2+'')],
      call = (\<lambda>trace. Inr quiet_object)\<rparr>"


definition blank_name_class :: py_class where
  "blank_name_class = uart_class\<lparr>getattr := (getattr uart_class)(''name'' \<mapsto> PyString [])\<rparr>"

definition uart2_class :: py_class where
  "uart2_class = uart_class\<lparr>getattr := (getattr uart_class)(''name'' \<mapsto> PyString ''UART2'')\<rparr>"

definition nul_name_class :: py_class where
  "nul_name_class =
     uart_class\<lparr>getattr := (getattr uart_class)
        (''name'' \<mapsto> PyString [CHR ''U'', CHR 0x00, CHR ''A''])\<rparr>"

text \<open>
  Sessions: the uart decoder registered; then with one instance of it; then with two;
  three instances of which the middle one is a given object; and the last of these, with
  the tiring object, after one feed of two bytes.
\<close>

definition uart_session :: srd_state where
  "uart_session = snd (srd_load_decoder True uart_class session0)"

definition uart_instance_session :: srd_state where
  "uart_instance_session = snd (srd_instance_new True ''uart'' uart_session)"

definition two_uart_session :: srd_state where
  "two_uart_session =
     uart_session\<lparr>decoders := [\<lparr>py_instance = quiet_object\<rparr>, \<lparr>py_instance = quiet_object\<rparr>]\<rparr>"

definition three_session :: "py_object \<Rightarrow> srd_state" where
  "three_session obj =
     session0\<lparr>decoders := [\<lparr>py_instance = quiet_object\<rparr>, \<lparr>py_instance = obj\<rparr>,
                            \<lparr>py_instance = quiet_object\<rparr>]\<rparr>"

definition fed_once_session :: srd_state where
  "fed_once_session = snd (srd_session_feed (Some [85, 170]) 2 (three_session tiring_object))"

section \<open>Properties\<close>

subsection \<open>Auxiliary facts: registry and instances\<close>

lemma h_str_cases:
  "h_str py_res key = Inl SRD_ERR_PYTHON \<or>
   (\<exists>str. getattr py_res key = Some (PyString str) \<and> h_str py_res key = Inr (g_strdup str))"
  by (auto simp: h_str_def split: option.splits py_value.splits)


lemma h_str_Inl: "h_str py_res key = Inl r \<Longrightarrow> r = SRD_ERR_PYTHON"
  using h_str_cases [of py_res key] by auto

lemma h_str_Inr:
  "h_str py_res key = Inr v \<Longrightarrow> \<exists>str. getattr py_res key = Some (PyString str) \<and> v = g_strdup str"
  using h_str_cases [of py_res key] by auto


lemma load_decoder_ok:
  "srd_load_decoder malloc_ok py_res s = (SRD_OK, s') \<Longrightarrow>
     \<exists>d. s' = s\<lparr>list_pds := list_pds s @ [d]\<rparr> \<and> py_decobj d = py_res \<and>
         h_str py_res ''id'' = Inr (dec_id d) \<and> h_str py_res ''name'' = Inr (name d) \<and>
         h_str py_res ''longname'' = Inr (longname d) \<and> h_str py_res ''desc'' = Inr (desc d) \<and>
         h_str py_res ''longdesc'' = Inr (longdesc d) \<and> h_str py_res ''author'' = Inr (author d) \<and>
         h_str py_res ''email'' = Inr (email d) \<and> h_str py_res ''license'' = Inr (license d)"
  by (auto simp: srd_load_decoder_def split: if_splits sum.splits dest: h_str_Inl)

lemma g_strdup_no_nul: "CHR 0x00 \<notin> set str \<Longrightarrow> g_strdup str = str"
  by (auto simp: g_strdup_def)

lemma uart_session_list_pds:
  "list_pds uart_session =
     [\<lparr>dec_id = ''uart'', name = ''UART'',
       longname = ''Universal Asynchronous Receiver/Transmitter'',
       desc = ''Serial line'', longdesc = ''Serial line decoder'',
       author = ''A. U. Thor'', email = ''author@example.org'',
       license = ''gplv2+'', py_decobj = uart_class, func = None,
       inputformats = [], outputformats = []\<rparr>]"
  by (simp add: uart_session_def session0_def srd_load_decoder_def h_str_def uart_class_def
        g_strdup_def)

lemma uart_session_fields:
  "decoders uart_session = []" "timehack uart_session = 0" "py_calls uart_session = []"
  by (simp_all add: uart_session_def session0_def srd_load_decoder_def h_str_def uart_class_def
        g_strdup_def)

lemma uart_instance_session_eq:
  "uart_instance_session = uart_session\<lparr>decoders := [\<lparr>py_instance = quiet_object\<rparr>]\<rparr>"
  by (simp add: uart_instance_session_def srd_instance_new_def srd_get_decoder_by_id_def
        srd_list_decoders_def uart_session_list_pds uart_class_def)
     (simp add: uart_session_def session0_def srd_load_decoder_def h_str_def uart_class_def
        g_strdup_def)

lemma instance_new_Return:
  "srd_instance_new tuple_ok ident s = (Return di, s') \<Longrightarrow>
     (di = None \<and> s' = s) \<or>
     (\<exists>dec obj. srd_get_decoder_by_id ident s = Some dec \<and>
        call (py_decobj dec) (py_calls s) = Inr obj \<and>
        di = Some (length (decoders s)) \<and>
        s' = s\<lparr>decoders := decoders s @ [\<lparr>py_instance = obj\<rparr>]\<rparr>)"
  by (auto simp: srd_instance_new_def split: option.splits if_splits sum.splits)

lemma get_decoder_by_id_cong:
  "list_pds s = list_pds s' \<Longrightarrow> srd_get_decoder_by_id ident s = srd_get_decoder_by_id ident s'"
  by (simp add: srd_get_decoder_by_id_def srd_list_decoders_def)

lemma instance_new_all_order:
  "instance_new_all reqs s = (Return dis, s') \<Longrightarrow>
     length dis = length reqs \<and>
     map the (filter (\<lambda>di. di \<noteq> None) dis) = [length (decoders s)..<length (decoders s')] \<and>
     take (length (decoders s)) (decoders s') = decoders s \<and>
     length (decoders s) \<le> length (decoders s') \<and>
     list_pds s' = list_pds s \<and> py_calls s' = py_calls s \<and>
     (\<forall>j<length reqs. \<forall>di. dis ! j = Some di \<longrightarrow>
        di < length (decoders s') \<and>
        (\<exists>dec. srd_get_decoder_by_id (snd (reqs ! j)) s = Some dec \<and>
           call (py_decobj dec) (py_calls s) = Inr (py_instance (decoders s' ! di))))"
proof (induction reqs arbitrary: s dis s')
  case Nil
  then show ?case by simp
next
  case (Cons req reqs)
  obtain tuple_ok ident where req: "req = (tuple_ok, ident)" by (cases req)
  from Cons.prems req obtain di s1 dis1 where
    new: "srd_instance_new tuple_ok ident s = (Return di, s1)" and
    rest: "instance_new_all reqs s1 = (Return dis1, s')" and
    dis: "dis = di # dis1"
    by (auto split: prod.splits outcome.splits)
  note ih = Cons.IH [OF rest]
  have len1: "length (decoders s) \<le> length (decoders s1)" and
    keep1: "take (length (decoders s)) (decoders s1) = decoders s" and
    same1: "list_pds s1 = list_pds s" "py_calls s1 = py_calls s"
    using instance_new_Return [OF new] by auto
  have tk: "take (length (decoders s)) (decoders s') = decoders s"
  proof -
    have "take (length (decoders s)) (decoders s') =
          take (length (decoders s)) (take (length (decoders s1)) (decoders s'))"
      using len1 by (simp add: min_def)
    also have "\<dots> = take (length (decoders s)) (decoders s1)"
      using ih by simp
    finally show ?thesis using keep1 by simp
  qed
  have hs: "map the (filter (\<lambda>di. di \<noteq> None) dis) = [length (decoders s)..<length (decoders s')]"
  proof (cases di)
    case None
    then have "s1 = s" using instance_new_Return [OF new] by auto
    with ih dis None show ?thesis by simp
  next
    case (Some h)
    then have h: "h = length (decoders s)" "length (decoders s1) = Suc (length (decoders s))"
      using instance_new_Return [OF new] by auto
    have "Suc (length (decoders s)) \<le> length (decoders s')"
      using ih h by simp
    then have "[length (decoders s)..<length (decoders s')] =
        length (decoders s) # [Suc (length (decoders s))..<length (decoders s')]"
      by (simp add: upt_conv_Cons)
    with ih dis Some h show ?thesis by simp
  qed
  have tie: "di' < length (decoders s') \<and>
        (\<exists>dec. srd_get_decoder_by_id (snd ((req # reqs) ! j)) s = Some dec \<and>
           call (py_decobj dec) (py_calls s) = Inr (py_instance (decoders s' ! di')))"
    if j: "j < length (req # reqs)" and d: "dis ! j = Some di'" for j di'
  proof (cases j)
    case 0
    with d dis have "di = Some di'" by simp
    with instance_new_Return [OF new] obtain dec obj where
      o: "srd_get_decoder_by_id ident s = Some dec" "call (py_decobj dec) (py_calls s) = Inr obj"
        "di' = length (decoders s)" "s1 = s\<lparr>decoders := decoders s @ [\<lparr>py_instance = obj\<rparr>]\<rparr>"
      by auto
    have lt: "di' < length (decoders s1)" using o(3,4) by simp
    have "decoders s' ! di' = take (length (decoders s1)) (decoders s') ! di'"
      using lt by simp
    also have "\<dots> = decoders s1 ! di'" using ih by simp
    also have "\<dots> = \<lparr>py_instance = obj\<rparr>" using o(3,4) by simp
    finally have "py_instance (decoders s' ! di') = obj" by simp
    moreover have "di' < length (decoders s')" using lt ih by simp
    ultimately show ?thesis using o(1,2) 0 req by simp
  next
    case (Suc j')
    with j d dis have j': "j' < length reqs" "dis1 ! j' = Some di'" by simp_all
    with ih obtain dec where
      "di' < length (decoders s')" "srd_get_decoder_by_id (snd (reqs ! j')) s1 = Some dec"
      "call (py_decobj dec) (py_calls s1) = Inr (py_instance (decoders s' ! di'))"
      by blast
    then show ?thesis
      using Suc same1 get_decoder_by_id_cong [OF same1(1)] by simp
  qed
  show ?case
    using ih dis hs tk len1 same1 tie by auto
qed

subsection \<open>Auxiliary facts: the counter\<close>

text \<open>
  Adding in 64 bits and keeping the low 32 bits is adding in 32 bits, so one call of
  \<^verbatim>\<open>srd_run_decoder\<close> moves the counter by \<open>ucast inbuflen\<close>, whatever it returns.
\<close>

lemma ucast_down_add: "(ucast (x + y :: 64 word) :: 32 word) = ucast x + ucast y"
proof -
  have d: "(2::int) ^ LENGTH(32) dvd 2 ^ 64"
    by (rule le_imp_power_dvd) simp
  have m: "(word_of_int (k mod 2 ^ 64) :: 32 word) = word_of_int k" for k
    by (simp only: word_of_int_eq_iff take_bit_eq_mod mod_mod_cancel [OF d])
  have "(ucast (x + y) :: 32 word) = word_of_int (uint (x + y))"
    by simp
  also have "\<dots> = word_of_int ((uint x + uint y) mod 2 ^ 64)"
    by (simp add: uint_word_ariths)
  also have "\<dots> = word_of_int (uint x + uint y)"
    by (rule m)
  also have "\<dots> = ucast x + ucast y"
    by simp
  finally show ?thesis .
qed

lemma ucast_scast_up: "ucast (scast (t :: 32 word) :: 64 word) = t"
  by (rule bit_word_eqI) (auto simp add: bit_simps)

lemma timehack_add: "ucast ((scast (t :: 32 word) :: 64 word) + n) = t + (ucast n :: 32 word)"
  by (simp only: ucast_down_add ucast_scast_up)

lemma ucast_eq_of_nat: "(ucast (n :: 64 word) :: 32 word) = of_nat (unat n)"
  by simp


lemma run_decoder_args:
  "inbuf = None \<or> inbuflen = 0 \<Longrightarrow>
     srd_run_decoder dec inbuf inbuflen s =
       (Return SRD_ERR_ARGS, s\<lparr>timehack := timehack s + ucast inbuflen\<rparr>)"
  by (auto simp: srd_run_decoder_def timehack_add Let_def split: option.splits)

lemma run_decoder_call:
  "inbuflen \<noteq> 0 \<Longrightarrow>
     srd_run_decoder (Some (i, di)) (Some buf) inbuflen s =
       (case raises (py_instance di) (py_calls s) (decode_call (timehack s) inbuflen buf 0) of
          None \<Rightarrow>
            (Return SRD_OK,
             s\<lparr>timehack := timehack s + ucast inbuflen,
               py_calls := py_calls s @ [(i, decode_call (timehack s) inbuflen buf 0, True)]\<rparr>)
        | Some e \<Rightarrow>
            (case e of PyException \<Rightarrow> Return SRD_ERR_PYTHON | PySystemExit status \<Rightarrow> Exit status,
             s\<lparr>timehack := timehack s + ucast inbuflen,
               py_calls := py_calls s @ [(i, decode_call (timehack s) inbuflen buf 0, False)]\<rparr>))"
  by (simp add: srd_run_decoder_def timehack_add Let_def PyObject_CallMethod_def decode_call_def
        PyErr_Print_def split: option.splits py_exception.splits)

lemma run_decoder_timehack:
  "timehack (snd (srd_run_decoder dec inbuf inbuflen s)) = timehack s + ucast inbuflen"
  by (auto simp: srd_run_decoder_def timehack_add Let_def PyObject_CallMethod_def
      split: option.splits)

lemma decode_call_shift:
  "decode_call (t + ucast n) n buf q = decode_call t n buf (Suc q)"
  by (simp add: decode_call_def algebra_simps)

lemma decode_times_distinct:
  assumes "inbuflen \<noteq> 0" and "unat inbuflen * k < 2 ^ 32"
  shows "distinct (map (\<lambda>e. call_time (fst (snd e))) (decode_events t inbuflen buf k))"
proof -
  let ?N = "unat inbuflen"
  let ?f = "\<lambda>q. call_time (decode_call t inbuflen buf q)"
  have N: "0 < ?N"
    using assms(1) by (simp add: unat_gt_0)
  have inj: "inj_on ?f (set [0..<k])"
  proof (rule inj_onI)
    fix a b assume a: "a \<in> set [0..<k]" and b: "b \<in> set [0..<k]" and eq: "?f a = ?f b"
    have bound: "Suc q * ?N < 2 ^ 32" if "q < k" for q
    proof -
      have "Suc q * ?N \<le> k * ?N"
        using that by (intro mult_le_mono1) simp
      also have "\<dots> < 2 ^ 32"
        using assms(2) by (simp add: mult.commute)
      finally show ?thesis .
    qed
    from eq have "sint (t + of_nat (Suc a) * (ucast inbuflen :: 32 word)) =
                  sint (t + of_nat (Suc b) * (ucast inbuflen :: 32 word))"
      by (simp add: decode_call_def)
    then have "t + of_nat (Suc a) * (ucast inbuflen :: 32 word) =
               t + of_nat (Suc b) * (ucast inbuflen :: 32 word)"
      by (rule signed_word_eqI)
    then have "(of_nat (Suc a * ?N) :: 32 word) = of_nat (Suc b * ?N)"
      by (simp only: add_left_cancel ucast_eq_of_nat of_nat_mult)
    then have "take_bit LENGTH(32) (Suc a * ?N) = take_bit LENGTH(32) (Suc b * ?N)"
      by (simp only: word_of_nat_eq_iff)
    moreover have "take_bit LENGTH(32) (Suc a * ?N) = Suc a * ?N"
      using bound [of a] a by (simp add: take_bit_nat_eq_self)
    moreover have "take_bit LENGTH(32) (Suc b * ?N) = Suc b * ?N"
      using bound [of b] b by (simp add: take_bit_nat_eq_self)
    ultimately have "Suc a * ?N = Suc b * ?N" by simp
    with N show "a = b" by simp
  qed
  have "map (\<lambda>e. call_time (fst (snd e))) (decode_events t inbuflen buf k) = map ?f [0..<k]"
    by (simp add: decode_events_def)
  moreover have "distinct (map ?f [0..<k])"
    using inj by (simp add: distinct_map)
  ultimately show ?thesis by simp
qed

subsection \<open>Auxiliary facts: the two loops\<close>

lemma decode_call_shift':
  "decode_call (ucast n + t) n buf q = decode_call t n buf (Suc q)"
  by (simp add: decode_call_def algebra_simps)


text \<open>
  The log of one run of the start loop, entry by entry: entry \<open>k\<close> is the invocation of
  the instance at position \<open>k\<close>, with the outcome that this instance gives on the log
  as it stood; every entry but the last returned normally; and the loop stops short of
  the end of the list only after an entry that raised.
\<close>

lemma start_loop_order:
  "\<exists>evs. py_calls (snd (start_loop (enumerate m ds) c s)) = py_calls s @ evs \<and>
      length evs \<le> length ds \<and>
      (\<forall>k<length evs. evs ! k =
         (m + k, c, raises (py_instance (ds ! k)) (py_calls s @ take k evs) c = None)) \<and>
      (\<forall>k. Suc k < length evs \<longrightarrow> snd (snd (evs ! k))) \<and>
      (length evs < length ds \<longrightarrow> evs \<noteq> [] \<and> \<not> snd (snd (last evs))) \<and>
      ((fst (start_loop (enumerate m ds) c s) = Return SRD_OK) =
         (length evs = length ds \<and> (\<forall>e \<in> set evs. snd (snd e)))) \<and>
      decoders (snd (start_loop (enumerate m ds) c s)) = decoders s \<and>
      list_pds (snd (start_loop (enumerate m ds) c s)) = list_pds s \<and>
      timehack (snd (start_loop (enumerate m ds) c s)) = timehack s"
proof (induction ds arbitrary: m s)
  case Nil
  show ?case by simp
next
  case (Cons d ds)
  show ?case
  proof (cases "raises (py_instance d) (py_calls s) c")
    case (Some e)
    then show ?thesis
      by (intro exI [of _ "[(m, c, False)]"])
         (simp add: PyObject_CallMethod_def PyErr_Print_def split: py_exception.splits)
  next
    case None
    let ?s1 = "s\<lparr>py_calls := py_calls s @ [(m, c, True)]\<rparr>"
    let ?R = "start_loop (enumerate (Suc m) ds) c ?s1"
    have step: "start_loop (enumerate m (d # ds)) c s = ?R"
      using None by (simp add: PyObject_CallMethod_def)
    from Cons.IH [of "Suc m" ?s1] obtain evs where
      e1: "py_calls (snd ?R) = py_calls ?s1 @ evs" and
      e2: "length evs \<le> length ds" and
      e3: "\<forall>k<length evs. evs ! k =
         (Suc m + k, c, raises (py_instance (ds ! k)) (py_calls ?s1 @ take k evs) c = None)" and
      e4: "\<forall>k. Suc k < length evs \<longrightarrow> snd (snd (evs ! k))" and
      e5: "length evs < length ds \<longrightarrow> evs \<noteq> [] \<and> \<not> snd (snd (last evs))" and
      e6: "(fst ?R = Return SRD_OK) = (length evs = length ds \<and> (\<forall>e \<in> set evs. snd (snd e)))" and
      e7: "decoders (snd ?R) = decoders ?s1" "list_pds (snd ?R) = list_pds ?s1"
          "timehack (snd ?R) = timehack ?s1"
      by blast
    let ?evs = "(m, c, True) # evs"
    have a1: "py_calls (snd ?R) = py_calls s @ ?evs"
      using e1 by simp
    have a2: "length ?evs \<le> length (d # ds)"
      using e2 by simp
    have a3: "\<forall>k<length ?evs. ?evs ! k =
         (m + k, c, raises (py_instance ((d # ds) ! k)) (py_calls s @ take k ?evs) c = None)"
    proof (intro allI impI)
      fix k assume k: "k < length ?evs"
      show "?evs ! k =
         (m + k, c, raises (py_instance ((d # ds) ! k)) (py_calls s @ take k ?evs) c = None)"
      proof (cases k)
        case 0
        then show ?thesis using None by simp
      next
        case (Suc k')
        with k have "k' < length evs" by simp
        with e3 have "evs ! k' =
         (Suc m + k', c, raises (py_instance (ds ! k')) (py_calls ?s1 @ take k' evs) c = None)"
          by blast
        then show ?thesis using Suc by simp
      qed
    qed
    have a4: "\<forall>k. Suc k < length ?evs \<longrightarrow> snd (snd (?evs ! k))"
    proof (intro allI impI)
      fix k assume k: "Suc k < length ?evs"
      show "snd (snd (?evs ! k))"
      proof (cases k)
        case 0
        then show ?thesis by simp
      next
        case (Suc k')
        with k e4 show ?thesis by simp
      qed
    qed
    have a5: "length ?evs < length (d # ds) \<longrightarrow> ?evs \<noteq> [] \<and> \<not> snd (snd (last ?evs))"
      using e5 by auto
    have a6: "(fst ?R = Return SRD_OK) =
         (length ?evs = length (d # ds) \<and> (\<forall>e \<in> set ?evs. snd (snd e)))"
      using e6 by simp
    show ?thesis
      unfolding step using a1 a2 a3 a4 a5 a6 e7 by (intro exI [of _ ?evs]) simp
  qed
qed

lemma feed_loop_invalid:
  "inbuf = None \<or> inbuflen = 0 \<Longrightarrow>
     feed_loop (enumerate m ds) inbuf inbuflen s =
       (if ds = [] then (Return SRD_OK, s)
        else (Exit 1, s\<lparr>timehack := timehack s + ucast inbuflen\<rparr>))"
  by (cases ds) (simp_all add: run_decoder_args)

lemma feed_loop_fail:
  "inbuflen \<noteq> 0 \<Longrightarrow> i < length ds \<Longrightarrow>
   (\<forall>j<i. raises (py_instance (ds ! j))
       (py_calls s @ map (\<lambda>q. (m + q, decode_call (timehack s) inbuflen buf q, True)) [0..<j])
       (decode_call (timehack s) inbuflen buf j) = None) \<Longrightarrow>
   raises (py_instance (ds ! i))
       (py_calls s @ map (\<lambda>q. (m + q, decode_call (timehack s) inbuflen buf q, True)) [0..<i])
       (decode_call (timehack s) inbuflen buf i) = Some e \<Longrightarrow>
   feed_loop (enumerate m ds) (Some buf) inbuflen s =
     (Exit (case e of PyException \<Rightarrow> 1 | PySystemExit status \<Rightarrow> status),
      s\<lparr>timehack := timehack s + of_nat (Suc i) * ucast inbuflen,
        py_calls := py_calls s @
          map (\<lambda>q. (m + q, decode_call (timehack s) inbuflen buf q, True)) [0..<i] @
          [(m + i, decode_call (timehack s) inbuflen buf i, False)]\<rparr>)"
proof (induction ds arbitrary: i m s)
  case Nil
  then show ?case by simp
next
  case (Cons d ds)
  let ?t = "timehack s"
  let ?ev = "\<lambda>t m q. (m + q, decode_call t inbuflen buf q, True)"
  show ?case
  proof (cases i)
    case 0
    with Cons.prems show ?thesis
      by (simp add: run_decoder_call split: py_exception.splits)
  next
    case (Suc i')
    let ?s1 = "s\<lparr>timehack := ?t + ucast inbuflen,
                 py_calls := py_calls s @ [(m, decode_call ?t inbuflen buf 0, True)]\<rparr>"
    have ok0: "raises (py_instance d) (py_calls s) (decode_call ?t inbuflen buf 0) = None"
      using Cons.prems(3) Suc by force
    have shift: "py_calls ?s1 @ map (?ev (timehack ?s1) (Suc m)) [0..<j] =
                 py_calls s @ map (?ev ?t m) [0..<Suc j]" for j
      by (simp only: map_upt_Suc) (simp add: decode_call_shift)
    have p1: "i' < length ds"
      using Cons.prems(2) Suc by simp
    have p2: "\<forall>j<i'. raises (py_instance (ds ! j))
                (py_calls ?s1 @ map (?ev (timehack ?s1) (Suc m)) [0..<j])
                (decode_call (timehack ?s1) inbuflen buf j) = None"
    proof (intro allI impI)
      fix j assume "j < i'"
      then have "Suc j < i" using Suc by simp
      then have "raises (py_instance ((d # ds) ! Suc j))
                (py_calls s @ map (?ev ?t m) [0..<Suc j]) (decode_call ?t inbuflen buf (Suc j)) = None"
        using Cons.prems(3) by blast
      then show "raises (py_instance (ds ! j))
                (py_calls ?s1 @ map (?ev (timehack ?s1) (Suc m)) [0..<j])
                (decode_call (timehack ?s1) inbuflen buf j) = None"
        unfolding shift by (simp add: decode_call_shift)
    qed
    have p3: "raises (py_instance (ds ! i'))
                (py_calls ?s1 @ map (?ev (timehack ?s1) (Suc m)) [0..<i'])
                (decode_call (timehack ?s1) inbuflen buf i') = Some e"
      using Cons.prems(4) Suc unfolding shift by (simp add: decode_call_shift)
    have "feed_loop (enumerate m (d # ds)) (Some buf) inbuflen s =
          feed_loop (enumerate (Suc m) ds) (Some buf) inbuflen ?s1"
      using ok0 Cons.prems(1) by (simp add: run_decoder_call)
    also have "\<dots> = (Exit (case e of PyException \<Rightarrow> 1 | PySystemExit status \<Rightarrow> status),
        ?s1\<lparr>timehack := timehack ?s1 + of_nat (Suc i') * ucast inbuflen,
            py_calls := py_calls ?s1 @ map (?ev (timehack ?s1) (Suc m)) [0..<i'] @
               [(Suc m + i', decode_call (timehack ?s1) inbuflen buf i', False)]\<rparr>)"
      by (rule Cons.IH [OF Cons.prems(1) p1 p2 p3])
    also have "\<dots> = (Exit (case e of PyException \<Rightarrow> 1 | PySystemExit status \<Rightarrow> status),
        s\<lparr>timehack := ?t + of_nat (Suc i) * ucast inbuflen,
          py_calls := py_calls s @ map (?ev ?t m) [0..<i] @
             [(m + i, decode_call ?t inbuflen buf i, False)]\<rparr>)"
      unfolding Suc by (simp only: map_upt_Suc) (simp add: decode_call_shift decode_call_shift' algebra_simps)
    finally show ?thesis .
  qed
qed

lemma feed_loop_Return:
  "feed_loop (enumerate m ds) (Some buf) inbuflen s = (Return r, s') \<Longrightarrow>
     r = SRD_OK \<and>
     s' = s\<lparr>timehack := timehack s + of_nat (length ds) * ucast inbuflen,
            py_calls := py_calls s @
              map (\<lambda>q. (m + q, decode_call (timehack s) inbuflen buf q, True))
                [0..<length ds]\<rparr> \<and>
     (ds \<noteq> [] \<longrightarrow> inbuflen \<noteq> 0)"
proof (induction ds arbitrary: m s)
  case Nil
  then show ?case by auto
next
  case (Cons d ds)
  let ?t = "timehack s"
  have valid: "inbuflen \<noteq> 0"
  proof
    assume "inbuflen = 0"
    then have "Some buf = None \<or> inbuflen = 0" by simp
    from feed_loop_invalid [OF this, of m "d # ds" s] Cons.prems show False by simp
  qed
  let ?c = "decode_call ?t inbuflen buf 0"
  let ?s1 = "s\<lparr>timehack := ?t + ucast inbuflen, py_calls := py_calls s @ [(m, ?c, True)]\<rparr>"
  have ok0: "raises (py_instance d) (py_calls s) ?c = None"
  proof (cases "raises (py_instance d) (py_calls s) ?c")
    case None
    then show ?thesis .
  next
    case (Some e)
    with Cons.prems valid show ?thesis
      by (simp add: run_decoder_call split: py_exception.splits)
  qed
  have step: "feed_loop (enumerate m (d # ds)) (Some buf) inbuflen s =
              feed_loop (enumerate (Suc m) ds) (Some buf) inbuflen ?s1"
    using ok0 valid by (simp add: run_decoder_call)
  with Cons.prems have "feed_loop (enumerate (Suc m) ds) (Some buf) inbuflen ?s1 = (Return r, s')"
    by simp
  from Cons.IH [OF this]
  have r: "r = SRD_OK"
    and s': "s' = ?s1\<lparr>timehack := timehack ?s1 + of_nat (length ds) * ucast inbuflen,
            py_calls := py_calls ?s1 @
              map (\<lambda>q. (Suc m + q, decode_call (timehack ?s1) inbuflen buf q, True))
                [0..<length ds]\<rparr>"
    by blast+
  have "s' = s\<lparr>timehack := ?t + of_nat (length (d # ds)) * ucast inbuflen,
            py_calls := py_calls s @
              map (\<lambda>q. (m + q, decode_call ?t inbuflen buf q, True))
                [0..<length (d # ds)]\<rparr>"
    unfolding s'
    by (simp only: length_Cons map_upt_Suc) (simp add: decode_call_shift decode_call_shift' algebra_simps del: upt_Suc)
  with r valid show ?case by blast
qed

text \<open>The same account of the log for one run of the feed loop.\<close>

lemma feed_loop_order:
  "inbuflen \<noteq> 0 \<Longrightarrow>
   \<exists>evs. py_calls (snd (feed_loop (enumerate m ds) (Some buf) inbuflen s)) = py_calls s @ evs \<and>
      length evs \<le> length ds \<and>
      (\<forall>k<length evs. evs ! k =
         (m + k, decode_call (timehack s) inbuflen buf k,
          raises (py_instance (ds ! k)) (py_calls s @ take k evs)
            (decode_call (timehack s) inbuflen buf k) = None)) \<and>
      (\<forall>k. Suc k < length evs \<longrightarrow> snd (snd (evs ! k))) \<and>
      (length evs < length ds \<longrightarrow> evs \<noteq> [] \<and> \<not> snd (snd (last evs))) \<and>
      ((fst (feed_loop (enumerate m ds) (Some buf) inbuflen s) = Return SRD_OK) =
         (length evs = length ds \<and> (\<forall>e \<in> set evs. snd (snd e)))) \<and>
      decoders (snd (feed_loop (enumerate m ds) (Some buf) inbuflen s)) = decoders s \<and>
      list_pds (snd (feed_loop (enumerate m ds) (Some buf) inbuflen s)) = list_pds s"
proof (induction ds arbitrary: m s)
  case Nil
  show ?case by simp
next
  case (Cons d ds)
  let ?t = "timehack s"
  let ?c = "decode_call ?t inbuflen buf"
  note n = Cons.prems
  show ?case
  proof (cases "raises (py_instance d) (py_calls s) (?c 0)")
    case (Some e)
    then show ?thesis
      using n by (intro exI [of _ "[(m, ?c 0, False)]"])
         (simp add: run_decoder_call split: py_exception.splits)
  next
    case None
    let ?s1 = "s\<lparr>timehack := ?t + ucast inbuflen, py_calls := py_calls s @ [(m, ?c 0, True)]\<rparr>"
    let ?R = "feed_loop (enumerate (Suc m) ds) (Some buf) inbuflen ?s1"
    have step: "feed_loop (enumerate m (d # ds)) (Some buf) inbuflen s = ?R"
      using None n by (simp add: run_decoder_call)
    have c1: "decode_call (timehack ?s1) inbuflen buf k = ?c (Suc k)" for k
      by (simp add: decode_call_shift)
    from Cons.IH [OF n, of "Suc m" ?s1] obtain evs where
      e1: "py_calls (snd ?R) = py_calls ?s1 @ evs" and
      e2: "length evs \<le> length ds" and
      e3: "\<forall>k<length evs. evs ! k =
         (Suc m + k, decode_call (timehack ?s1) inbuflen buf k,
          raises (py_instance (ds ! k)) (py_calls ?s1 @ take k evs)
            (decode_call (timehack ?s1) inbuflen buf k) = None)" and
      e4: "\<forall>k. Suc k < length evs \<longrightarrow> snd (snd (evs ! k))" and
      e5: "length evs < length ds \<longrightarrow> evs \<noteq> [] \<and> \<not> snd (snd (last evs))" and
      e6: "(fst ?R = Return SRD_OK) = (length evs = length ds \<and> (\<forall>e \<in> set evs. snd (snd e)))" and
      e7: "decoders (snd ?R) = decoders ?s1" "list_pds (snd ?R) = list_pds ?s1"
      by blast
    let ?evs = "(m, ?c 0, True) # evs"
    have a1: "py_calls (snd ?R) = py_calls s @ ?evs"
      using e1 by simp
    have a2: "length ?evs \<le> length (d # ds)"
      using e2 by simp
    have a3: "\<forall>k<length ?evs. ?evs ! k =
         (m + k, ?c k, raises (py_instance ((d # ds) ! k)) (py_calls s @ take k ?evs) (?c k) = None)"
    proof (intro allI impI)
      fix k assume k: "k < length ?evs"
      show "?evs ! k =
         (m + k, ?c k, raises (py_instance ((d # ds) ! k)) (py_calls s @ take k ?evs) (?c k) = None)"
      proof (cases k)
        case 0
        then show ?thesis using None by simp
      next
        case (Suc k')
        with k have "k' < length evs" by simp
        with e3 have "evs ! k' =
         (Suc m + k', decode_call (timehack ?s1) inbuflen buf k',
          raises (py_instance (ds ! k')) (py_calls ?s1 @ take k' evs)
            (decode_call (timehack ?s1) inbuflen buf k') = None)"
          by blast
        then show ?thesis using Suc unfolding c1 by simp
      qed
    qed
    have a4: "\<forall>k. Suc k < length ?evs \<longrightarrow> snd (snd (?evs ! k))"
    proof (intro allI impI)
      fix k assume k: "Suc k < length ?evs"
      show "snd (snd (?evs ! k))"
      proof (cases k)
        case 0
        then show ?thesis by simp
      next
        case (Suc k')
        with k e4 show ?thesis by simp
      qed
    qed
    have a5: "length ?evs < length (d # ds) \<longrightarrow> ?evs \<noteq> [] \<and> \<not> snd (snd (last ?evs))"
      using e5 by auto
    have a6: "(fst ?R = Return SRD_OK) =
         (length ?evs = length (d # ds) \<and> (\<forall>e \<in> set ?evs. snd (snd e)))"
      using e6 by simp
    show ?thesis
      unfolding step using a1 a2 a3 a4 a5 a6 e7 by (intro exI [of _ ?evs]) simp
  qed
qed


lemma fed_once_session_eq:
  "fed_once_session =
     (three_session tiring_object)
       \<lparr>timehack := 6,
        py_calls := [(0, Decode 2 10 [85, 170], True), (1, Decode 4 10 [85, 170], True),
                     (2, Decode 6 10 [85, 170], True)]\<rparr>"
  by (simp add: fed_once_session_def srd_session_feed_def three_session_def session0_def
        run_decoder_call decode_call_def tiring_object_def quiet_object_def)

subsection \<open>C1: feeding a null buffer or a length of zero\<close>

text \<open>
  C1 as stated does not hold: \<^verbatim>\<open>srd_session_feed\<close> never returns \<^verbatim>\<open>SRD_ERR_ARGS\<close>.
  With no instance it returns \<^verbatim>\<open>SRD_OK\<close> for a null buffer, and with one instance
  a length of zero ends the process with \<^verbatim>\<open>exit(1)\<close>.
\<close>

theorem feed_invalid_args_counterexample:
  "fst (srd_session_feed None 2 session0) = Return SRD_OK \<and>
   fst (srd_session_feed (Some [85, 170]) 0 uart_instance_session) = Exit 1"
  by (simp add: srd_session_feed_def session0_def uart_instance_session_eq run_decoder_args)

text \<open>
  C1, amended: for a null buffer or a length of zero, \<^verbatim>\<open>srd_session_feed\<close> invokes
  \<^verbatim>\<open>decode\<close> on no instance, however many are active; every call of
  \<^verbatim>\<open>srd_run_decoder\<close> with these arguments returns \<^verbatim>\<open>SRD_ERR_ARGS\<close>; and the
  feed itself returns \<^verbatim>\<open>SRD_OK\<close> when no instance is active and ends the process
  with status 1 otherwise.
\<close>

theorem feed_invalid_args:
  assumes "inbuf = None \<or> inbuflen = 0"
  shows "py_calls (snd (srd_session_feed inbuf inbuflen s)) = py_calls s \<and>
         fst (srd_session_feed inbuf inbuflen s) =
           (if decoders s = [] then Return SRD_OK else Exit 1) \<and>
         fst (srd_run_decoder dec inbuf inbuflen s) = Return SRD_ERR_ARGS"
  by (simp add: srd_session_feed_def feed_loop_invalid [OF assms] run_decoder_args [OF assms])

theorem feed_invalid_args_witness:
  "py_calls (snd (srd_session_feed None 2 (three_session quiet_object))) = [] \<and>
   fst (srd_session_feed None 2 (three_session quiet_object)) = Exit 1 \<and>
   fst (srd_run_decoder (Some (0, \<lparr>py_instance = quiet_object\<rparr>)) None 2
          (three_session quiet_object)) = Return SRD_ERR_ARGS"
  using feed_invalid_args [of None 2 "three_session quiet_object"
      "Some (0, \<lparr>py_instance = quiet_object\<rparr>)"]
  by (simp add: three_session_def session0_def)

subsection \<open>C2: one instance, successive feeds\<close>




subsection \<open>C3: a decode invocation that fails\<close>

text \<open>
  C3: in a feed of a buffer with a length that is not zero, let the instance at position
  \<open>i\<close> be the first whose \<^verbatim>\<open>decode\<close> invocation raises. Then the feed ends the
  process: with the status of the exception when that is \<^verbatim>\<open>SystemExit\<close>, since
  \<^verbatim>\<open>PyErr_Print\<close> ends it then, and with \<^verbatim>\<open>exit(1)\<close> for any other exception.
  Up to then the instances before \<open>i\<close> were invoked, in order, then instance \<open>i\<close>;
  no instance created later is invoked for this buffer.
\<close>

theorem feed_fail_fast:
  assumes "inbuflen \<noteq> 0"
      and "i < length (decoders s)"
      and "\<forall>j<i. raises (py_instance (decoders s ! j))
              (py_calls s @ decode_events (timehack s) inbuflen buf j)
              (decode_call (timehack s) inbuflen buf j) = None"
      and "raises (py_instance (decoders s ! i))
              (py_calls s @ decode_events (timehack s) inbuflen buf i)
              (decode_call (timehack s) inbuflen buf i) = Some e"
  shows "srd_session_feed (Some buf) inbuflen s =
           (Exit (case e of PyException \<Rightarrow> 1 | PySystemExit status \<Rightarrow> status),
            s\<lparr>timehack := timehack s + of_nat (Suc i) * ucast inbuflen,
              py_calls := py_calls s @ decode_events (timehack s) inbuflen buf i @
                 [(i, decode_call (timehack s) inbuflen buf i, False)]\<rparr>) \<and>
         (\<forall>ev \<in> set (drop (length (py_calls s))
                      (py_calls (snd (srd_session_feed (Some buf) inbuflen s)))). fst ev \<le> i)"
proof -
  have run: "srd_session_feed (Some buf) inbuflen s =
           (Exit (case e of PyException \<Rightarrow> 1 | PySystemExit status \<Rightarrow> status),
            s\<lparr>timehack := timehack s + of_nat (Suc i) * ucast inbuflen,
              py_calls := py_calls s @ decode_events (timehack s) inbuflen buf i @
                 [(i, decode_call (timehack s) inbuflen buf i, False)]\<rparr>)"
    using feed_loop_fail [of inbuflen i "decoders s" s 0 buf e, OF assms(1,2)] assms(3,4)
    by (simp add: srd_session_feed_def decode_events_def)
  have "\<forall>ev \<in> set (decode_events (timehack s) inbuflen buf i @
                 [(i, decode_call (timehack s) inbuflen buf i, False)]). fst ev \<le> i"
    by (auto simp: decode_events_def)
  with run show ?thesis by simp
qed

theorem feed_fail_fast_witness:
  "srd_session_feed (Some [85, 170]) 2 fed_once_session =
     (Exit 1,
      fed_once_session
        \<lparr>timehack := 10,
         py_calls := py_calls fed_once_session @
           [(0, Decode 8 10 [85, 170], True), (1, Decode 10 10 [85, 170], False)]\<rparr>) \<and>
   srd_session_feed (Some [85, 170]) 2 (three_session exiting_object) =
     (Exit 7,
      (three_session exiting_object)
        \<lparr>timehack := 4,
         py_calls := [(0, Decode 2 10 [85, 170], True), (1, Decode 4 10 [85, 170], False)]\<rparr>)"
proof -
  have a: "srd_session_feed (Some [85, 170]) 2 fed_once_session =
     (Exit 1,
      fed_once_session
        \<lparr>timehack := 10,
         py_calls := py_calls fed_once_session @
           [(0, Decode 8 10 [85, 170], True), (1, Decode 10 10 [85, 170], False)]\<rparr>)"
    using feed_fail_fast [of 2 1 fed_once_session "[85, 170]" PyException]
    by (simp add: fed_once_session_eq three_session_def session0_def decode_events_def
          decode_call_def tiring_object_def quiet_object_def)
  have b: "srd_session_feed (Some [85, 170]) 2 (three_session exiting_object) =
     (Exit 7,
      (three_session exiting_object)
        \<lparr>timehack := 4,
         py_calls := [(0, Decode 2 10 [85, 170], True), (1, Decode 4 10 [85, 170], False)]\<rparr>)"
    using feed_fail_fast [of 2 1 "three_session exiting_object" "[85, 170]" "PySystemExit 7"]
    by (simp add: three_session_def session0_def decode_events_def decode_call_def
          exiting_object_def quiet_object_def)
  from a b show ?thesis by simp
qed

subsection \<open>C4: registering a candidate with a bad field\<close>


subsection \<open>C5: the order of invocations\<close>

text \<open>
  C5: \<^verbatim>\<open>srd_session_start\<close>, and \<^verbatim>\<open>srd_session_feed\<close> for a buffer with a length
  that is not zero, invoke the instances in the order of the list, from its head: entry
  \<open>k\<close> of what the call adds to the log is the invocation of the instance at position
  \<open>k\<close>, with the outcome that this very instance gives on the log as it stood then.
  Every entry but the last returned normally, the call stops short of the end of the list
  only after an invocation that raised, and it returns \<^verbatim>\<open>SRD_OK\<close> exactly when every
  instance was invoked and none raised. The order of the list is the order of creation:
  whatever sequence of \<^verbatim>\<open>srd_instance_new\<close> calls led from a state \<open>s0\<close> to \<open>s\<close>,
  the instances of \<open>s0\<close> keep their positions, the pointers returned by the successful
  calls are, in call order, the positions that follow, and at each such position stands
  the object that the constructor of the decoder asked for returned.
\<close>

theorem invocation_order:
  "(\<exists>evs. py_calls (snd (srd_session_start driver unitsize starttime samplerate s)) =
            py_calls s @ evs \<and>
      length evs \<le> length (decoders s) \<and>
      (\<forall>k<length evs. evs ! k =
         (k, Start driver (sint unitsize) (sint starttime) (sint samplerate),
          raises (py_instance (decoders s ! k)) (py_calls s @ take k evs)
            (Start driver (sint unitsize) (sint starttime) (sint samplerate)) = None)) \<and>
      (\<forall>k. Suc k < length evs \<longrightarrow> snd (snd (evs ! k))) \<and>
      (length evs < length (decoders s) \<longrightarrow> evs \<noteq> [] \<and> \<not> snd (snd (last evs))) \<and>
      ((fst (srd_session_start driver unitsize starttime samplerate s) = Return SRD_OK) =
         (length evs = length (decoders s) \<and> (\<forall>ev \<in> set evs. snd (snd ev))))) \<and>
   (inbuflen \<noteq> 0 \<longrightarrow>
     (\<exists>evs. py_calls (snd (srd_session_feed (Some buf) inbuflen s)) = py_calls s @ evs \<and>
        length evs \<le> length (decoders s) \<and>
        (\<forall>k<length evs. evs ! k =
           (k, decode_call (timehack s) inbuflen buf k,
            raises (py_instance (decoders s ! k)) (py_calls s @ take k evs)
              (decode_call (timehack s) inbuflen buf k) = None)) \<and>
        (\<forall>k. Suc k < length evs \<longrightarrow> snd (snd (evs ! k))) \<and>
        (length evs < length (decoders s) \<longrightarrow> evs \<noteq> [] \<and> \<not> snd (snd (last evs))) \<and>
        ((fst (srd_session_feed (Some buf) inbuflen s) = Return SRD_OK) =
           (length evs = length (decoders s) \<and> (\<forall>ev \<in> set evs. snd (snd ev)))))) \<and>
   (instance_new_all reqs s0 = (Return dis, s) \<longrightarrow>
      map the (filter (\<lambda>di. di \<noteq> None) dis) = [length (decoders s0)..<length (decoders s)] \<and>
      take (length (decoders s0)) (decoders s) = decoders s0 \<and>
      (\<forall>j<length reqs. \<forall>di. dis ! j = Some di \<longrightarrow>
         di < length (decoders s) \<and>
         (\<exists>dec. srd_get_decoder_by_id (snd (reqs ! j)) s0 = Some dec \<and>
            call (py_decobj dec) (py_calls s0) = Inr (py_instance (decoders s ! di)))))"
proof (intro conjI impI)
  let ?c = "Start driver (sint unitsize) (sint starttime) (sint samplerate)"
  let ?R = "srd_session_start driver unitsize starttime samplerate s"
  have R: "?R = start_loop (enumerate 0 (decoders s)) ?c s"
    by (simp add: srd_session_start_def)
  from start_loop_order [of 0 "decoders s" ?c s] obtain evs where
    e: "py_calls (snd ?R) = py_calls s @ evs" "length evs \<le> length (decoders s)"
       "\<forall>k<length evs. evs ! k =
          (k, ?c, raises (py_instance (decoders s ! k)) (py_calls s @ take k evs) ?c = None)"
       "\<forall>k. Suc k < length evs \<longrightarrow> snd (snd (evs ! k))"
       "length evs < length (decoders s) \<longrightarrow> evs \<noteq> [] \<and> \<not> snd (snd (last evs))"
       "(fst ?R = Return SRD_OK) =
          (length evs = length (decoders s) \<and> (\<forall>ev \<in> set evs. snd (snd ev)))"
    unfolding R add_0 by blast
  show "\<exists>evs. py_calls (snd ?R) = py_calls s @ evs \<and>
      length evs \<le> length (decoders s) \<and>
      (\<forall>k<length evs. evs ! k =
         (k, ?c, raises (py_instance (decoders s ! k)) (py_calls s @ take k evs) ?c = None)) \<and>
      (\<forall>k. Suc k < length evs \<longrightarrow> snd (snd (evs ! k))) \<and>
      (length evs < length (decoders s) \<longrightarrow> evs \<noteq> [] \<and> \<not> snd (snd (last evs))) \<and>
      ((fst ?R = Return SRD_OK) =
         (length evs = length (decoders s) \<and> (\<forall>ev \<in> set evs. snd (snd ev))))"
    using e by (intro exI [of _ evs]) blast
next
  assume n: "inbuflen \<noteq> 0"
  let ?c = "decode_call (timehack s) inbuflen buf"
  let ?R = "srd_session_feed (Some buf) inbuflen s"
  have R: "?R = feed_loop (enumerate 0 (decoders s)) (Some buf) inbuflen s"
    by (simp add: srd_session_feed_def)
  from feed_loop_order [OF n, of 0 "decoders s" buf s] obtain evs where
    e: "py_calls (snd ?R) = py_calls s @ evs" "length evs \<le> length (decoders s)"
       "\<forall>k<length evs. evs ! k =
          (k, ?c k, raises (py_instance (decoders s ! k)) (py_calls s @ take k evs) (?c k) = None)"
       "\<forall>k. Suc k < length evs \<longrightarrow> snd (snd (evs ! k))"
       "length evs < length (decoders s) \<longrightarrow> evs \<noteq> [] \<and> \<not> snd (snd (last evs))"
       "(fst ?R = Return SRD_OK) =
          (length evs = length (decoders s) \<and> (\<forall>ev \<in> set evs. snd (snd ev)))"
    unfolding R add_0 by blast
  show "\<exists>evs. py_calls (snd ?R) = py_calls s @ evs \<and>
        length evs \<le> length (decoders s) \<and>
        (\<forall>k<length evs. evs ! k =
           (k, ?c k,
            raises (py_instance (decoders s ! k)) (py_calls s @ take k evs) (?c k) = None)) \<and>
        (\<forall>k. Suc k < length evs \<longrightarrow> snd (snd (evs ! k))) \<and>
        (length evs < length (decoders s) \<longrightarrow> evs \<noteq> [] \<and> \<not> snd (snd (last evs))) \<and>
        ((fst ?R = Return SRD_OK) =
           (length evs = length (decoders s) \<and> (\<forall>ev \<in> set evs. snd (snd ev))))"
    using e by (intro exI [of _ evs]) blast
next
  assume run: "instance_new_all reqs s0 = (Return dis, s)"
  from instance_new_all_order [OF run]
  show "map the (filter (\<lambda>di. di \<noteq> None) dis) = [length (decoders s0)..<length (decoders s)]"
    and "take (length (decoders s0)) (decoders s) = decoders s0"
    and "\<forall>j<length reqs. \<forall>di. dis ! j = Some di \<longrightarrow>
         di < length (decoders s) \<and>
         (\<exists>dec. srd_get_decoder_by_id (snd (reqs ! j)) s0 = Some dec \<and>
            call (py_decobj dec) (py_calls s0) = Inr (py_instance (decoders s ! di)))"
    by blast+
qed

theorem invocation_order_witness:
  "instance_new_all [(True, ''uart''), (True, ''nonexistent''), (False, ''uart''), (True, ''uart'')]
     uart_session = (Return [Some 0, None, None, Some 1], two_uart_session) \<and>
   py_calls (snd (srd_session_start ''demo'' 1 0 1000000 two_uart_session)) =
     [(0, Start ''demo'' 1 0 1000000, True), (1, Start ''demo'' 1 0 1000000, True)] \<and>
   py_calls (snd (srd_session_feed (Some [85, 170]) 2 two_uart_session)) =
     [(0, Decode 2 10 [85, 170], True), (1, Decode 4 10 [85, 170], True)]"
proof -
  have two: "evs = [evs ! 0, evs ! 1]" if "length evs = 2" for evs :: "py_event list"
    using that by (auto simp: list_eq_iff_nth_eq less_Suc_eq numeral_2_eq_2)
  have new: "instance_new_all
      [(True, ''uart''), (True, ''nonexistent''), (False, ''uart''), (True, ''uart'')]
      uart_session = (Return [Some 0, None, None, Some 1], two_uart_session)"
    by (simp add: srd_instance_new_def srd_get_decoder_by_id_def srd_list_decoders_def
          uart_session_list_pds uart_session_fields two_uart_session_def uart_class_def)
  have ok1: "fst (srd_session_start ''demo'' 1 0 1000000 two_uart_session) = Return SRD_OK"
    by (simp add: srd_session_start_def two_uart_session_def PyObject_CallMethod_def
          quiet_object_def)
  have ok2: "fst (srd_session_feed (Some [85, 170]) 2 two_uart_session) = Return SRD_OK"
    by (simp add: srd_session_feed_def two_uart_session_def uart_session_fields run_decoder_call
          quiet_object_def)
  have st: "length (decoders two_uart_session) = 2" "py_calls two_uart_session = []"
    "timehack two_uart_session = 0"
    by (simp_all add: two_uart_session_def uart_session_fields)
  have q: "raises (py_instance (decoders two_uart_session ! k)) trace c = None" if "k < 2" for k trace c
    using that by (auto simp: two_uart_session_def quiet_object_def less_Suc_eq numeral_2_eq_2)
  from invocation_order [of "''demo''" 1 0 1000000 two_uart_session 2 "[85, 170]"
      "[(True, ''uart''), (True, ''nonexistent''), (False, ''uart''), (True, ''uart'')]"
      uart_session "[Some 0, None, None, Some 1]"]
  obtain evs1 evs2 where
    s1: "py_calls (snd (srd_session_start ''demo'' 1 0 1000000 two_uart_session)) = evs1"
      "length evs1 = 2"
      "\<forall>k<length evs1. evs1 ! k = (k, Start ''demo'' 1 0 1000000,
          raises (py_instance (decoders two_uart_session ! k)) (take k evs1)
            (Start ''demo'' 1 0 1000000) = None)" and
    s2: "py_calls (snd (srd_session_feed (Some [85, 170]) 2 two_uart_session)) = evs2"
      "length evs2 = 2"
      "\<forall>k<length evs2. evs2 ! k = (k, decode_call 0 2 [85, 170] k,
          raises (py_instance (decoders two_uart_session ! k)) (take k evs2)
            (decode_call 0 2 [85, 170] k) = None)"
    using ok1 ok2 st by auto
  have "evs1 = [(0, Start ''demo'' 1 0 1000000, True), (1, Start ''demo'' 1 0 1000000, True)]"
    using two [OF s1(2)] s1(2,3) q by (simp add: numeral_2_eq_2)
  moreover have "evs2 = [(0, Decode 2 10 [85, 170], True), (1, Decode 4 10 [85, 170], True)]"
  proof -
    have "evs2 = [(0, decode_call 0 2 [85, 170] 0, True), (1, decode_call 0 2 [85, 170] 1, True)]"
      using two [OF s2(2)] s2(2,3) q by (simp add: numeral_2_eq_2)
    then show ?thesis by (simp add: decode_call_def)
  qed
  ultimately show ?thesis
    using new s1(1) s2(1) by simp
qed

subsection \<open>C6: creating an instance of an unregistered decoder\<close>

text \<open>
  C6: for an id that no registered decoder has, \<^verbatim>\<open>srd_instance_new\<close> returns
  \<^verbatim>\<open>NULL\<close> and the whole state is unchanged: no instance is created, nothing is
  appended to the list of instances, and the registry is as it was.
\<close>

theorem instance_new_unregistered:
  "\<forall>dec \<in> set (list_pds s). dec_id dec \<noteq> ident \<Longrightarrow>
     srd_instance_new tuple_ok ident s = (Return None, s)"
  by (simp add: srd_instance_new_def srd_get_decoder_by_id_def srd_list_decoders_def
        find_None_iff [THEN iffD2])
theorem instance_new_unregistered_witness:
  "map dec_id (list_pds uart_session) = [''uart''] \<and>
   srd_instance_new True ''nonexistent'' uart_session = (Return None, uart_session)"
proof -
  have a: "\<forall>dec \<in> set (list_pds uart_session). dec_id dec \<noteq> ''nonexistent''"
    by (simp add: uart_session_list_pds)
  show ?thesis
    using instance_new_unregistered [OF a, of True] by (simp add: uart_session_list_pds)
qed

subsection \<open>C7: a start invocation that fails\<close>




subsection \<open>C8: looking up a registered decoder\<close>

text \<open>
  C8 as stated does not hold. \<^verbatim>\<open>srd_load_decoder\<close> accepts an empty string, so a
  registered decoder can have an empty name. It accepts an id that is registered already,
  and the lookup then returns the decoder registered first, not the one just added. And
  it stores a string up to its first NUL byte only.
\<close>

theorem get_decoder_by_id_counterexample:
  "fst (srd_load_decoder True blank_name_class session0) = SRD_OK \<and>
   map_option name
     (srd_get_decoder_by_id ''uart'' (snd (srd_load_decoder True blank_name_class session0))) =
     Some [] \<and>
   fst (srd_load_decoder True uart2_class uart_session) = SRD_OK \<and>
   map_option name
     (srd_get_decoder_by_id ''uart'' (snd (srd_load_decoder True uart2_class uart_session))) =
     Some ''UART'' \<and>
   map_option name
     (srd_get_decoder_by_id ''uart'' (snd (srd_load_decoder True nul_name_class session0))) =
     Some ''U''"
  by (simp add: srd_load_decoder_def h_str_def g_strdup_def blank_name_class_def uart2_class_def
        nul_name_class_def uart_class_def session0_def srd_get_decoder_by_id_def
        srd_list_decoders_def uart_session_list_pds)
text \<open>
  C8, amended: a successful \<^verbatim>\<open>srd_load_decoder\<close> appends one descriptor, each of whose
  eight fields is the string the component supplies for it, cut at its first NUL byte
  (so exactly the string supplied when that has no NUL byte; it may be empty). For the
  id of any descriptor \<open>d\<close> of the registry, \<^verbatim>\<open>srd_get_decoder_by_id\<close> returns the
  first descriptor of the registry with that id, which is \<open>d\<close> itself when no other
  descriptor has its id. For an id that no descriptor has, it returns \<^verbatim>\<open>NULL\<close>.
\<close>

theorem get_decoder_by_id_registered:
  "(srd_load_decoder malloc_ok py_res s = (SRD_OK, s') \<longrightarrow>
      (\<exists>d. list_pds s' = list_pds s @ [d] \<and> py_decobj d = py_res \<and>
           (\<forall>(key, field) \<in> set descriptor_fields.
               \<exists>str. getattr py_res key = Some (PyString str) \<and> field d = g_strdup str))) \<and>
   (d \<in> set (list_pds s) \<longrightarrow>
      (\<exists>i < length (list_pds s).
          srd_get_decoder_by_id (dec_id d) s = Some (list_pds s ! i) \<and>
          dec_id (list_pds s ! i) = dec_id d \<and>
          (\<forall>j<i. dec_id (list_pds s ! j) \<noteq> dec_id d) \<and>
          ((\<forall>e \<in> set (list_pds s). dec_id e = dec_id d \<longrightarrow> e = d) \<longrightarrow> list_pds s ! i = d))) \<and>
   ((\<forall>e \<in> set (list_pds s). dec_id e \<noteq> ident) \<longrightarrow> srd_get_decoder_by_id ident s = None) \<and>
   (CHR 0x00 \<notin> set str \<longrightarrow> g_strdup str = str)"
proof (intro conjI impI)
  assume "srd_load_decoder malloc_ok py_res s = (SRD_OK, s')"
  from load_decoder_ok [OF this] obtain d' where
    d: "s' = s\<lparr>list_pds := list_pds s @ [d']\<rparr>" "py_decobj d' = py_res"
      "h_str py_res ''id'' = Inr (dec_id d')" "h_str py_res ''name'' = Inr (name d')"
      "h_str py_res ''longname'' = Inr (longname d')" "h_str py_res ''desc'' = Inr (desc d')"
      "h_str py_res ''longdesc'' = Inr (longdesc d')" "h_str py_res ''author'' = Inr (author d')"
      "h_str py_res ''email'' = Inr (email d')" "h_str py_res ''license'' = Inr (license d')"
    by blast
  have "\<forall>(key, field) \<in> set descriptor_fields.
           \<exists>str. getattr py_res key = Some (PyString str) \<and> field d' = g_strdup str"
    unfolding descriptor_fields_def
    using d(3-10) [THEN h_str_Inr] by simp
  with d(1,2) show "\<exists>d. list_pds s' = list_pds s @ [d] \<and> py_decobj d = py_res \<and>
           (\<forall>(key, field) \<in> set descriptor_fields.
               \<exists>str. getattr py_res key = Some (PyString str) \<and> field d = g_strdup str)"
    by auto
next
  assume mem: "d \<in> set (list_pds s)"
  then obtain d' where f: "find (\<lambda>dec. dec_id dec = dec_id d) (list_pds s) = Some d'"
    by (cases "find (\<lambda>dec. dec_id dec = dec_id d) (list_pds s)") (auto simp: find_None_iff)
  then obtain i where i: "i < length (list_pds s)" "dec_id (list_pds s ! i) = dec_id d"
      "d' = list_pds s ! i" "\<forall>j<i. dec_id (list_pds s ! j) \<noteq> dec_id d"
    unfolding find_Some_iff by blast
  have "list_pds s ! i = d" if "\<forall>e \<in> set (list_pds s). dec_id e = dec_id d \<longrightarrow> e = d"
    using that i(1,2) by simp
  with f i show "\<exists>i < length (list_pds s).
          srd_get_decoder_by_id (dec_id d) s = Some (list_pds s ! i) \<and>
          dec_id (list_pds s ! i) = dec_id d \<and>
          (\<forall>j<i. dec_id (list_pds s ! j) \<noteq> dec_id d) \<and>
          ((\<forall>e \<in> set (list_pds s). dec_id e = dec_id d \<longrightarrow> e = d) \<longrightarrow> list_pds s ! i = d)"
    unfolding srd_get_decoder_by_id_def srd_list_decoders_def by blast
next
  assume "\<forall>e \<in> set (list_pds s). dec_id e \<noteq> ident"
  then show "srd_get_decoder_by_id ident s = None"
    by (simp add: srd_get_decoder_by_id_def srd_list_decoders_def find_None_iff)
next
  assume "CHR 0x00 \<notin> set str"
  then show "g_strdup str = str" by (rule g_strdup_no_nul)
qed
theorem get_decoder_by_id_registered_witness:
  "map name (list_pds (snd (srd_load_decoder True uart2_class uart_session))) =
     [''UART'', ''UART2''] \<and>
   map_option name (srd_get_decoder_by_id ''uart'' uart_session) = Some ''UART'' \<and>
   srd_get_decoder_by_id ''nonexistent'' uart_session = None \<and>
   g_strdup ''UART'' = ''UART''"
proof -
  let ?d = "\<lparr>dec_id = ''uart'', name = ''UART'',
       longname = ''Universal Asynchronous Receiver/Transmitter'',
       desc = ''Serial line'', longdesc = ''Serial line decoder'',
       author = ''A. U. Thor'', email = ''author@example.org'',
       license = ''gplv2+'', py_decobj = uart_class, func = None,
       inputformats = [], outputformats = []\<rparr>"
  have ok: "srd_load_decoder True uart2_class uart_session =
      (SRD_OK, snd (srd_load_decoder True uart2_class uart_session))"
    by (simp add: srd_load_decoder_def h_str_def uart2_class_def uart_class_def)
  have mem: "?d \<in> set (list_pds uart_session)"
    by (simp add: uart_session_list_pds)
  have none: "\<forall>e \<in> set (list_pds uart_session). dec_id e \<noteq> ''nonexistent''"
    by (simp add: uart_session_list_pds)
  have nul: "CHR 0x00 \<notin> set ''UART''"
    by simp
  show ?thesis
    using get_decoder_by_id_registered [of True uart2_class uart_session
        "snd (srd_load_decoder True uart2_class uart_session)" ?d "''nonexistent''" "''UART''"]
      ok mem none nul
    by (auto simp: uart_session_list_pds descriptor_fields_def uart2_class_def uart_class_def
        g_strdup_def)
qed

subsection \<open>C9: binding a probe\<close>

text \<open>
  C9 as stated does not hold for every instance. For an object without a \<open>probes\<close>
  attribute \<^verbatim>\<open>srd_instance_set_probe\<close> returns \<^verbatim>\<open>SRD_ERR_PYTHON\<close> and stores
  nothing; for a \<open>probes\<close> attribute that takes no item assignment it returns
  \<^verbatim>\<open>SRD_OK\<close> and stores nothing.
\<close>

theorem set_probe_counterexample:
  "map_option (\<lambda>r. (fst r, probes (py_instance (decoders (snd r) ! 1))))
     (srd_instance_set_probe 1 ''DATA'' 3 (three_session stubborn_object)) =
     Some (SRD_ERR_PYTHON, NoAttr) \<and>
   map_option (\<lambda>r. (fst r, probes (py_instance (decoders (snd r) ! 1))))
     (srd_instance_set_probe 1 ''DATA'' 3 (three_session frozen_probes_object)) =
     Some (SRD_OK, NotMapping)"
  by (simp add: srd_instance_set_probe_def three_session_def session0_def stubborn_object_def
        frozen_probes_object_def)
text \<open>
  C9, amended: for an instance whose \<open>probes\<close> attribute is a mapping, and every
  probe name, \<^verbatim>\<open>srd_instance_set_probe\<close> returns \<^verbatim>\<open>SRD_OK\<close> and afterwards the
  mapping is the old one with the name bound to the index; a second call with the same
  name and another index succeeds as well and leaves the name bound to the second index.
\<close>

theorem set_probe_roundtrip:
  assumes "di < length (decoders s)"
      and "probes (py_instance (decoders s ! di)) = Mapping probedict"
  shows "\<exists>s'. srd_instance_set_probe di probename num s = Some (SRD_OK, s') \<and>
           probes (py_instance (decoders s' ! di)) = Mapping (probedict(probename \<mapsto> sint num)) \<and>
           (\<exists>s''. srd_instance_set_probe di probename num' s' = Some (SRD_OK, s'') \<and>
              probes (py_instance (decoders s'' ! di)) =
                Mapping (probedict(probename \<mapsto> sint num')))"
  using assms by (simp add: srd_instance_set_probe_def Let_def)
theorem set_probe_roundtrip_witness:
  "(\<exists>s'. srd_instance_set_probe 1 ''DATA'' 3 (three_session quiet_object) = Some (SRD_OK, s') \<and>
      probes (py_instance (decoders s' ! 1)) = Mapping [''DATA'' \<mapsto> 3] \<and>
      (\<exists>s''. srd_instance_set_probe 1 ''DATA'' 5 s' = Some (SRD_OK, s'') \<and>
         probes (py_instance (decoders s'' ! 1)) = Mapping [''DATA'' \<mapsto> 5]))"
  using set_probe_roundtrip [of 1 "three_session quiet_object" Map.empty "''DATA''" 3 5]
  by (simp add: three_session_def session0_def quiet_object_def)

subsection \<open>C10: the shared time counter\<close>

text \<open>
  C10 as stated does not hold in one point: the counter is a 32-bit \<^verbatim>\<open>int\<close> and the
  length a 64-bit number, so two instances can receive the same time for one buffer.
  With a length of \<open>2\<^sup>3\<^sup>2\<close> both instances are invoked with time 0 and the counter is
  where it was.
\<close>

theorem timehack_counterexample:
  "map (\<lambda>e. call_time (fst (snd e)))
     (py_calls (snd (srd_session_feed (Some (replicate 4294967296 0)) 4294967296 two_uart_session)))
     = [Some 0, Some 0] \<and>
   timehack (snd (srd_session_feed (Some (replicate 4294967296 0)) 4294967296 two_uart_session)) =
     timehack two_uart_session"
  by (simp add: srd_session_feed_def two_uart_session_def uart_session_fields run_decoder_call
        decode_call_def quiet_object_def)
text \<open>
  C10, amended: every call of \<^verbatim>\<open>srd_run_decoder\<close> advances the one counter by the
  length of the buffer, in 32 bits, before it looks at its arguments, also when it then
  returns \<^verbatim>\<open>SRD_ERR_ARGS\<close>. A feed that returns has advanced the counter by the
  number of instances times the length, and the instance at position \<open>j\<close> has received
  the time of the counter before the feed plus \<open>j + 1\<close> times the length; these times
  differ from one instance to the other as long as the number of instances times the
  length stays below \<open>2\<^sup>3\<^sup>2\<close>. A feed with a null buffer or a length of zero, with at
  least one instance, ends the process with the counter advanced by the length.
\<close>

theorem timehack_shared_counter:
  "timehack (snd (srd_run_decoder dec inbuf inbuflen s)) = timehack s + ucast inbuflen \<and>
   (fst (srd_session_feed (Some buf) inbuflen s) = Return r \<longrightarrow>
      timehack (snd (srd_session_feed (Some buf) inbuflen s)) =
        timehack s + of_nat (length (decoders s)) * ucast inbuflen \<and>
      py_calls (snd (srd_session_feed (Some buf) inbuflen s)) =
        py_calls s @ decode_events (timehack s) inbuflen buf (length (decoders s)) \<and>
      (unat inbuflen * length (decoders s) < 2 ^ 32 \<longrightarrow>
         distinct (map (\<lambda>e. call_time (fst (snd e)))
           (decode_events (timehack s) inbuflen buf (length (decoders s)))))) \<and>
   ((inbuf = None \<or> inbuflen = 0) \<and> decoders s \<noteq> [] \<longrightarrow>
      srd_session_feed inbuf inbuflen s =
        (Exit 1, s\<lparr>timehack := timehack s + ucast inbuflen\<rparr>))"
proof (intro conjI impI)
  show "timehack (snd (srd_run_decoder dec inbuf inbuflen s)) = timehack s + ucast inbuflen"
    by (rule run_decoder_timehack)
next
  assume ret: "fst (srd_session_feed (Some buf) inbuflen s) = Return r"
  then have "feed_loop (enumerate 0 (decoders s)) (Some buf) inbuflen s =
      (Return r, snd (srd_session_feed (Some buf) inbuflen s))"
    unfolding srd_session_feed_def by (simp add: prod_eq_iff)
  from feed_loop_Return [OF this]
  have s': "snd (srd_session_feed (Some buf) inbuflen s) =
      s\<lparr>timehack := timehack s + of_nat (length (decoders s)) * ucast inbuflen,
        py_calls := py_calls s @ decode_events (timehack s) inbuflen buf (length (decoders s))\<rparr>"
    and valid: "decoders s \<noteq> [] \<longrightarrow> inbuflen \<noteq> 0"
    by (simp_all add: decode_events_def)
  show "timehack (snd (srd_session_feed (Some buf) inbuflen s)) =
        timehack s + of_nat (length (decoders s)) * ucast inbuflen"
    by (simp add: s')
  show "py_calls (snd (srd_session_feed (Some buf) inbuflen s)) =
        py_calls s @ decode_events (timehack s) inbuflen buf (length (decoders s))"
    by (simp add: s')
  assume nowrap: "unat inbuflen * length (decoders s) < 2 ^ 32"
  show "distinct (map (\<lambda>e. call_time (fst (snd e)))
           (decode_events (timehack s) inbuflen buf (length (decoders s))))"
  proof (cases "decoders s = []")
    case True
    then show ?thesis by (simp add: decode_events_def)
  next
    case False
    with valid have "inbuflen \<noteq> 0" by simp
    then show ?thesis using nowrap by (rule decode_times_distinct)
  qed
next
  assume a: "(inbuf = None \<or> inbuflen = 0) \<and> decoders s \<noteq> []"
  then obtain d ds where ds: "decoders s = d # ds"
    by (cases "decoders s") auto
  from a have "inbuf = None \<or> inbuflen = 0" by simp
  then show "srd_session_feed inbuf inbuflen s =
        (Exit 1, s\<lparr>timehack := timehack s + ucast inbuflen\<rparr>)"
    by (simp add: srd_session_feed_def ds run_decoder_args)
qed
theorem timehack_shared_counter_witness:
  "timehack (snd (srd_run_decoder None None 2 two_uart_session)) = 2 \<and>
   timehack (snd (srd_session_feed (Some [85, 170]) 2 two_uart_session)) = 4 \<and>
   map (\<lambda>e. call_time (fst (snd e)))
     (py_calls (snd (srd_session_feed (Some [85, 170]) 2 two_uart_session))) = [Some 2, Some 4] \<and>
   srd_session_feed None 2 two_uart_session = (Exit 1, two_uart_session\<lparr>timehack := 2\<rparr>)"
proof -
  have ret: "fst (srd_session_feed (Some [85, 170]) 2 two_uart_session) = Return SRD_OK"
    by (simp add: srd_session_feed_def two_uart_session_def uart_session_fields run_decoder_call
          quiet_object_def)
  show ?thesis
    using ret timehack_shared_counter [of None None 2 two_uart_session "[85, 170]" SRD_OK]
    by (simp add: two_uart_session_def uart_session_fields decode_events_def decode_call_def)
qed

end
